theory Spec2Isabelle
  imports Complex_Main
begin

section \<open>Python values used by the hiking helper\<close>

text \<open>
  A Python \<open>str\<close> is a sequence of Unicode code points, so a string is modelled as the
  list of its code points: \<open>len\<close> and the slice \<open>s[-5:]\<close> of the source count code
  points, not bytes. ASCII text is written with \<open>ascii\<close>; the other literals of
  \<^verbatim>\<open>main_v01.py\<close> are spelled out code point by code point.
\<close>

type_synonym pystr = "nat list"

definition ascii :: "string \<Rightarrow> pystr" where
  "ascii s = map of_char s"

text \<open>
  A Python \<open>float\<close> is modelled by the value it denotes: a rational number, one of the two
  infinities, or NaN. Comparing a float with an \<open>int\<close> is exact in Python, so the order on
  the denoted values is the order the source's comparisons compute.
\<close>

datatype pyfloat = Finite rat | PosInf | NegInf | NaN

datatype pyval = PyNone | PyBool bool | PyInt int | PyFloat pyfloat | PyStr pystr

datatype py_error = TypeError | UnicodeEncodeError | OverflowError

subsection \<open>\<open>str()\<close> of a value, as the f-strings of the source apply it\<close>

fun digits :: "nat \<Rightarrow> pystr" where
  "digits n = (if n < 10 then [48 + n] else digits (n div 10) @ [48 + n mod 10])"

declare digits.simps [simp del]

definition str_int :: "int \<Rightarrow> pystr" where
  "str_int i = (if i < 0 then 45 # digits (nat (- i)) else digits (nat i))"

text \<open>
  The shortest round-trip decimal that \<open>repr\<close> prints for a float is not computed here:
  it is the parameter \<open>float_repr\<close> of every function that formats a value.
\<close>

fun py_str :: "(pyfloat \<Rightarrow> pystr) \<Rightarrow> pyval \<Rightarrow> pystr" where
  "py_str float_repr PyNone = ascii ''None''"
| "py_str float_repr (PyBool b) = (if b then ascii ''True'' else ascii ''False'')"
| "py_str float_repr (PyInt i) = str_int i"
| "py_str float_repr (PyFloat f) = float_repr f"
| "py_str float_repr (PyStr s) = s"

subsection \<open>Comparisons with an integer constant\<close>

fun float_ge :: "pyfloat \<Rightarrow> int \<Rightarrow> bool" where
  "float_ge (Finite q) n = (of_int n \<le> q)"
| "float_ge PosInf n = True"
| "float_ge NegInf n = False"
| "float_ge NaN n = False"

fun float_lt :: "pyfloat \<Rightarrow> int \<Rightarrow> bool" where
  "float_lt (Finite q) n = (q < of_int n)"
| "float_lt PosInf n = False"
| "float_lt NegInf n = True"
| "float_lt NaN n = False"

text \<open>\<open>v >= n\<close> and \<open>v < n\<close>: a string or \<open>None\<close> on the left raises \<open>TypeError\<close>.\<close>

fun py_ge :: "pyval \<Rightarrow> int \<Rightarrow> py_error + bool" where
  "py_ge (PyInt i) n = Inr (n \<le> i)"
| "py_ge (PyBool b) n = Inr (n \<le> (if b then 1 else 0))"
| "py_ge (PyFloat f) n = Inr (float_ge f n)"
| "py_ge (PyStr s) n = Inl TypeError"
| "py_ge PyNone n = Inl TypeError"

fun py_lt :: "pyval \<Rightarrow> int \<Rightarrow> py_error + bool" where
  "py_lt (PyInt i) n = Inr (i < n)"
| "py_lt (PyBool b) n = Inr ((if b then 1 else 0) < n)"
| "py_lt (PyFloat f) n = Inr (float_lt f n)"
| "py_lt (PyStr s) n = Inl TypeError"
| "py_lt PyNone n = Inl TypeError"

text \<open>\<open>v[-5:]\<close>: the last five code points of a string; any other value is not subscriptable.\<close>

fun py_last5 :: "pyval \<Rightarrow> py_error + pystr" where
  "py_last5 (PyStr s) = Inr (drop (length s - 5) s)"
| "py_last5 v = Inl TypeError"

subsection \<open>The forecast snapshot: a dictionary\<close>

text \<open>
  The snapshot \<open>weather_info\<close> is a \<open>dict\<close>, the one mutable object the composer
  receives. Every operation on it returns the dictionary as the operation leaves it, so
  that the composer's effect on its argument is part of its result.
\<close>

type_synonym pydict = "(pystr \<times> pyval) list"

definition dict_get :: "pydict \<Rightarrow> pystr \<Rightarrow> pyval \<Rightarrow> pyval \<times> pydict" where
  "dict_get d k dflt = (case map_of d k of Some v \<Rightarrow> v | None \<Rightarrow> dflt, d)"

text \<open>Truth value of \<open>weather_info\<close>: \<open>None\<close> and the empty dictionary are false.\<close>

fun truthy :: "pydict option \<Rightarrow> bool" where
  "truthy None = False"
| "truthy (Some []) = False"
| "truthy (Some (kv # d)) = True"

record date =
  year :: nat
  month :: nat
  day :: nat

section \<open>Percent-encoding: \<open>urllib.parse.quote\<close>\<close>

text \<open>
  \<open>quote(s)\<close> encodes \<open>s\<close> as UTF-8 (strictly: a surrogate code point raises
  \<open>UnicodeEncodeError\<close>) and writes every byte outside letters, digits, \<open>_.-~\<close> and
  \<open>/\<close> as \<open>%XX\<close> with upper-case hexadecimal digits.
\<close>

definition utf8_encode_char :: "nat \<Rightarrow> py_error + nat list" where
  "utf8_encode_char c =
     (if c < 0x80 then Inr [c]
      else if c < 0x800 then Inr [0xC0 + c div 64, 0x80 + c mod 64]
      else if c < 0x10000 then
        (if 0xD800 \<le> c \<and> c < 0xE000 then Inl UnicodeEncodeError
         else Inr [0xE0 + c div 4096, 0x80 + (c div 64) mod 64, 0x80 + c mod 64])
      else if c < 0x110000 then
        Inr [0xF0 + c div 262144, 0x80 + (c div 4096) mod 64,
             0x80 + (c div 64) mod 64, 0x80 + c mod 64]
      else Inl UnicodeEncodeError)"

fun utf8_encode :: "pystr \<Rightarrow> py_error + nat list" where
  "utf8_encode [] = Inr []"
| "utf8_encode (c # cs) =
     (case utf8_encode_char c of
        Inl e \<Rightarrow> Inl e
      | Inr bs \<Rightarrow> (case utf8_encode cs of Inl e \<Rightarrow> Inl e | Inr rest \<Rightarrow> Inr (bs @ rest)))"

definition always_safe :: "nat \<Rightarrow> bool" where
  "always_safe b \<longleftrightarrow>
     (65 \<le> b \<and> b \<le> 90) \<or> (97 \<le> b \<and> b \<le> 122) \<or> (48 \<le> b \<and> b \<le> 57)
     \<or> b = 95 \<or> b = 46 \<or> b = 45 \<or> b = 126"

definition hex_digit :: "nat \<Rightarrow> nat" where
  "hex_digit x = (if x < 10 then 48 + x else 55 + x)"

definition quote_byte :: "nat \<Rightarrow> pystr" where
  "quote_byte b =
     (if always_safe b \<or> b = 47 then [b]
      else [37, hex_digit (b div 16), hex_digit (b mod 16)])"

definition quote_from_bytes :: "nat list \<Rightarrow> pystr" where
  "quote_from_bytes bs = concat (map quote_byte bs)"

definition quote :: "pystr \<Rightarrow> py_error + pystr" where
  "quote s = (case utf8_encode s of Inl e \<Rightarrow> Inl e | Inr bs \<Rightarrow> Inr (quote_from_bytes bs))"

section \<open>The itinerary content composer: \<open>generate_full_details\<close>\<close>

subsection \<open>The string literals of the source\<close>

definition notes_heading :: pystr where \<comment> \<open>line 56: heading of the trip notes\<close>
  "notes_heading =
     [0x3010, 0x1F4DD, 0x20, 0x884C, 0x7A0B, 0x7B46, 0x8A18, 0x3011]"

definition nav_label :: pystr where \<comment> \<open>line 62: label in front of the map URL\<close>
  "nav_label =
     [0x1F4CD, 0x20, 0x47, 0x6F, 0x6F, 0x67, 0x6C, 0x65, 0x20, 0x4D, 0x61, 0x70, 0x73,
     0x20, 0x5C0E, 0x822A, 0xFF1A]"

definition dest_label :: pystr where \<comment> \<open>line 66: label in front of the destination\<close>
  "dest_label =
     [0x3010, 0x76EE, 0x7684, 0x5730, 0x3011]"

definition route_label :: pystr where \<comment> \<open>line 68: label in front of the route\<close>
  "route_label =
     [0x3010, 0x8DEF, 0x7DDA, 0x3011]"

definition unknown_time :: pystr where \<comment> \<open>lines 74-75: default of sunrise and sunset\<close>
  "unknown_time =
     [0x672A, 0x77E5]"

definition forecast_heading :: pystr where \<comment> \<open>line 77: heading of the forecast section\<close>
  "forecast_heading =
     [0xA, 0x3010, 0x2600, 0xFE0F, 0x20, 0x7576, 0x65E5, 0x5929, 0x6C23, 0x9810, 0x5831,
     0x3011]"

definition temp_label :: pystr where \<comment> \<open>line 78: label of the temperature range\<close>
  "temp_label =
     [0x1F321, 0xFE0F, 0x20, 0x6C23, 0x6EAB, 0x9810, 0x6E2C, 0xFF1A]"

definition rain_label :: pystr where \<comment> \<open>line 79: label of the rain probability\<close>
  "rain_label =
     [0x2614, 0x20, 0x964D, 0x96E8, 0x6A5F, 0x7387, 0xFF1A]"

definition sun_label :: pystr where \<comment> \<open>line 80: label of sunrise and sunset\<close>
  "sun_label =
     [0x1F305, 0x20, 0x65E5, 0x51FA, 0x65E5, 0x843D, 0xFF1A]"

definition rain_warning :: pystr where \<comment> \<open>line 82: the rain-gear warning\<close>
  "rain_warning =
     [0x26A0, 0xFE0F, 0x20, 0x964D, 0x96E8, 0x6A5F, 0x7387, 0x9AD8, 0xFF0C, 0x52D9,
     0x5FC5, 0x651C, 0x5E36, 0x96E8, 0x8863, 0x2F, 0x96E8, 0x8932, 0xFF01]"

definition cold_warning :: pystr where \<comment> \<open>line 83: the cold-weather warning\<close>
  "cold_warning =
     [0x26A0, 0xFE0F, 0x20, 0x6C23, 0x6EAB, 0x8F03, 0x4F4E, 0xFF0C, 0x8ACB, 0x651C,
     0x5E36, 0x4FDD, 0x6696, 0x4E2D, 0x5C64, 0x3002]"

definition season_heading :: pystr where \<comment> \<open>line 87: heading of the seasonal section\<close>
  "season_heading =
     [0xA, 0x3010, 0x2600, 0xFE0F, 0x20, 0x5B63, 0x7BC0, 0x6027, 0x6C23, 0x5019, 0x63D0,
     0x9192, 0x3011]"

definition generic_notice :: pystr where \<comment> \<open>line 88: confirm again three days before departure\<close>
  "generic_notice =
     [0x26A0, 0xFE0F, 0x20, 0x65E5, 0x671F, 0x8F03, 0x9060, 0xFF0C, 0x66AB, 0x7121,
     0x7CBE, 0x6E96, 0x9810, 0x5831, 0xFF0C, 0x8ACB, 0x51FA, 0x767C, 0x524D, 0x20, 0x33,
     0x20, 0x5929, 0x518D, 0x6B21, 0x78BA, 0x8A8D, 0x3002]"

definition icy_warning :: pystr where \<comment> \<open>line 90: ice in the high mountains, bring crampons\<close>
  "icy_warning =
     [0x2744, 0xFE0F, 0x20, 0x51AC, 0x5B63, 0x9AD8, 0x5C71, 0x53EF, 0x80FD, 0x7D50,
     0x51B0, 0xFF0C, 0x5EFA, 0x8B70, 0x651C, 0x5E36, 0x51B0, 0x722A, 0x3002]"

definition plum_rain_warning :: pystr where \<comment> \<open>line 92: plum-rain season, afternoon thunderstorms\<close>
  "plum_rain_warning =
     [0x1F327, 0xFE0F, 0x20, 0x6885, 0x96E8, 0x5B63, 0x7BC0, 0xFF0C, 0x6CE8, 0x610F,
     0x5348, 0x5F8C, 0x96F7, 0x9663, 0x96E8, 0x3002]"

definition typhoon_warning :: pystr where \<comment> \<open>line 94: typhoon season and summer, sun protection\<close>
  "typhoon_warning =
     [0x1F32A, 0xFE0F, 0x20, 0x98B1, 0x98A8, 0x5B63, 0x2F, 0x590F, 0x5B63, 0xFF0C,
     0x6CE8, 0x610F, 0x9632, 0x66EC, 0x8207, 0x5929, 0x6C23, 0x8B66, 0x5831, 0x3002]"

definition gear_heading :: pystr where \<comment> \<open>line 97: heading of the gear checklist\<close>
  "gear_heading =
     [0xA, 0x3010, 0x1F392, 0x20, 0x88DD, 0x5099, 0x6AA2, 0x67E5, 0x3011]"

definition gear_documents :: pystr where \<comment> \<open>line 98\<close>
  "gear_documents =
     [0x25A1, 0x20, 0x8B49, 0x4EF6, 0x20, 0x2F, 0x20, 0x5165, 0x5C71, 0x8B49, 0x20, 0x2F,
     0x20, 0x96E2, 0x7DDA, 0x5730, 0x5716]"

definition gear_headlamp :: pystr where \<comment> \<open>line 99\<close>
  "gear_headlamp =
     [0x25A1, 0x20, 0x982D, 0x71C8, 0x20, 0x28, 0x542B, 0x5099, 0x7528, 0x96FB, 0x6C60,
     0x29, 0x20, 0x2605, 0x91CD, 0x8981]"

definition gear_rainwear :: pystr where \<comment> \<open>line 100\<close>
  "gear_rainwear =
     [0x25A1, 0x20, 0x96E8, 0x5177, 0x20, 0x2F, 0x20, 0x4FDD, 0x6696, 0x8863, 0x7269]"

definition gear_water :: pystr where \<comment> \<open>line 101\<close>
  "gear_water =
     [0x25A1, 0x20, 0x884C, 0x52D5, 0x6C34, 0x20, 0x2F, 0x20, 0x884C, 0x52D5, 0x7CE7]"

definition biji_label :: pystr where \<comment> \<open>line 106: label in front of the trail-notes URL\<close>
  "biji_label =
     [0xA, 0x1F517, 0x20, 0x5065, 0x884C, 0x7B46, 0x8A18, 0x641C, 0x5C0B, 0xFF1A]"

definition divider :: pystr where \<comment> \<open>lines 58 and 63: a newline, twenty dashes, a newline\<close>
  "divider = [10] @ replicate 20 45 @ [10]"

definition map_prefix :: pystr where \<comment> \<open>line 61\<close>
  "map_prefix = ascii ''https://www.google.com/maps/search/?api=1&query=''"

definition biji_prefix :: pystr where \<comment> \<open>line 105\<close>
  "biji_prefix = ascii ''https://hiking.biji.co/index.php?q=''"

definition biji_suffix :: pystr where \<comment> \<open>line 105\<close>
  "biji_suffix = ascii ''&node=search''"

subsection \<open>The two weather branches (lines 70 to 94)\<close>

text \<open>
  Both branches take the list \<open>details\<close> built so far and return it extended, as the
  source appends to it. The forecast branch reads the dictionary five times, slices
  sunrise and sunset, appends four lines and then compares rain probability and minimum
  temperature with the two thresholds; a slice or a comparison that raises ends the call.
\<close>

definition forecast_branch ::
  "(pyfloat \<Rightarrow> pystr) \<Rightarrow> pystr list \<Rightarrow> pydict \<Rightarrow> (py_error + pystr list) \<times> pydict" where
  "forecast_branch float_repr details weather_info =
     (let (max_t, weather_info) = dict_get weather_info (ascii ''max_temp'') (PyStr (ascii ''?''));
          (min_t, weather_info) = dict_get weather_info (ascii ''min_temp'') (PyStr (ascii ''?''));
          (rain, weather_info) = dict_get weather_info (ascii ''rain_prob'') (PyInt 0);
          (sunrise_v, weather_info) = dict_get weather_info (ascii ''sunrise'') (PyStr unknown_time)
      in case py_last5 sunrise_v of
           Inl e \<Rightarrow> (Inl e, weather_info)
         | Inr sunrise \<Rightarrow>
      (let (sunset_v, weather_info) = dict_get weather_info (ascii ''sunset'') (PyStr unknown_time)
       in case py_last5 sunset_v of
            Inl e \<Rightarrow> (Inl e, weather_info)
          | Inr sunset \<Rightarrow>
       (let details = details @ [forecast_heading];
            details = details @ [temp_label @ py_str float_repr min_t @ [0xB0] @ ascii ''C ~ ''
                                  @ py_str float_repr max_t @ [0xB0] @ ascii ''C''];
            details = details @ [rain_label @ py_str float_repr rain @ ascii ''%''];
            details = details @ [sun_label @ sunrise @ ascii '' / '' @ sunset]
        in case py_ge rain 30 of
             Inl e \<Rightarrow> (Inl e, weather_info)
           | Inr rainy \<Rightarrow>
        (let details = (if rainy then details @ [rain_warning] else details)
         in case py_lt min_t 10 of
              Inl e \<Rightarrow> (Inl e, weather_info)
            | Inr cold \<Rightarrow>
                (Inr (if cold then details @ [cold_warning] else details), weather_info)))))"

definition seasonal_branch :: "pystr list \<Rightarrow> date \<Rightarrow> pystr list" where
  "seasonal_branch details date_obj =
     (let month = month date_obj;
          details = details @ [season_heading];
          details = details @ [generic_notice]
      in if month \<in> set [12, 1, 2, 3] then details @ [icy_warning]
         else if month \<in> set [5, 6] then details @ [plum_rain_warning]
         else if month \<in> set [7, 8, 9] then details @ [typhoon_warning]
         else details)"

definition weather_section ::
  "(pyfloat \<Rightarrow> pystr) \<Rightarrow> pystr list \<Rightarrow> date \<Rightarrow> pydict option
     \<Rightarrow> (py_error + pystr list) \<times> pydict option" where
  "weather_section float_repr details date_obj weather_info =
     (if truthy weather_info then
        (case forecast_branch float_repr details (the weather_info) of
           (r, d) \<Rightarrow> (r, Some d))
      else (Inr (seasonal_branch details date_obj), weather_info))"

subsection \<open>The whole function (lines 48 to 108)\<close>

fun join_lines :: "pystr list \<Rightarrow> pystr" where \<comment> \<open>line 108: the lines joined by newlines\<close>
  "join_lines [] = []"
| "join_lines [l] = l"
| "join_lines (l # ls) = l @ [10] @ join_lines ls"

text \<open>
  \<open>generate_details\<close> is the function up to its last line: it returns the list
  \<open>details\<close>, or the error raised on the way, together with \<open>weather_info\<close> as the call
  leaves it. \<open>generate_full_details\<close> joins the list as line 108 does.
\<close>

definition generate_details ::
  "(pyfloat \<Rightarrow> pystr) \<Rightarrow> pystr \<Rightarrow> pystr \<Rightarrow> date \<Rightarrow> pydict option \<Rightarrow> pystr
     \<Rightarrow> (py_error + pystr list) \<times> pydict option" where
  "generate_details float_repr mountain_name route_name date_obj weather_info custom_notes =
     (let details = [];
          details = (if custom_notes \<noteq> [] then details @ [notes_heading, custom_notes, divider]
                     else details)
      in case quote mountain_name of
           Inl e \<Rightarrow> (Inl e, weather_info)
         | Inr quoted \<Rightarrow>
      (let map_url = map_prefix @ quoted;
           details = details @ [nav_label @ map_url];
           details = details @ [divider];
           details = details @ [dest_label @ mountain_name];
           details = (if route_name \<noteq> [] then details @ [route_label @ route_name] else details)
       in case weather_section float_repr details date_obj weather_info of
            (Inl e, weather_info) \<Rightarrow> (Inl e, weather_info)
          | (Inr details, weather_info) \<Rightarrow>
       (let details = details @ [gear_heading];
            details = details @ [gear_documents];
            details = details @ [gear_headlamp];
            details = details @ [gear_rainwear];
            details = details @ [gear_water]
        in case quote mountain_name of
             Inl e \<Rightarrow> (Inl e, weather_info)
           | Inr encoded_name \<Rightarrow>
         (let biji_link = biji_prefix @ encoded_name @ biji_suffix;
              details = details @ [biji_label @ biji_link]
          in (Inr details, weather_info)))))"

definition generate_full_details ::
  "(pyfloat \<Rightarrow> pystr) \<Rightarrow> pystr \<Rightarrow> pystr \<Rightarrow> date \<Rightarrow> pydict option \<Rightarrow> pystr
     \<Rightarrow> (py_error + pystr) \<times> pydict option" where
  "generate_full_details float_repr mountain_name route_name date_obj weather_info custom_notes =
     (case generate_details float_repr mountain_name route_name date_obj weather_info custom_notes of
        (Inl e, weather_info) \<Rightarrow> (Inl e, weather_info)
      | (Inr details, weather_info) \<Rightarrow> (Inr (join_lines details), weather_info))"

text \<open>
  The list that the function builds has three parts: the lines appended before the weather
  branch, the lines of the weather branch, and the lines appended after it. The first and
  the last part are named here, for the statements below.
\<close>

definition header_lines :: "pystr \<Rightarrow> pystr \<Rightarrow> pystr \<Rightarrow> pystr \<Rightarrow> pystr list" where
  "header_lines custom_notes mountain_name quoted route_name =
     (if custom_notes \<noteq> [] then [notes_heading, custom_notes, divider] else [])
     @ [nav_label @ map_prefix @ quoted, divider, dest_label @ mountain_name]
     @ (if route_name \<noteq> [] then [route_label @ route_name] else [])"

definition footer_lines :: "pystr \<Rightarrow> pystr list" where
  "footer_lines quoted =
     [gear_heading, gear_documents, gear_headlamp, gear_rainwear, gear_water,
      biji_label @ biji_prefix @ quoted @ biji_suffix]"








section \<open>Percent-decoding, the inverse that the destination name is measured against\<close>

text \<open>
  A string is well-formed Unicode text when every code point is a Unicode scalar value:
  below \<open>0x110000\<close> and not a surrogate.
\<close>

definition unicode_text :: "pystr \<Rightarrow> bool" where
  "unicode_text s \<longleftrightarrow> list_all (\<lambda>c. c < 0xD800 \<or> (0xE000 \<le> c \<and> c < 0x110000)) s"

definition is_hex :: "nat \<Rightarrow> bool" where
  "is_hex c \<longleftrightarrow> (48 \<le> c \<and> c \<le> 57) \<or> (65 \<le> c \<and> c \<le> 70) \<or> (97 \<le> c \<and> c \<le> 102)"

definition hex_val :: "nat \<Rightarrow> nat" where
  "hex_val c = (if c \<le> 57 then c - 48 else if c \<le> 70 then c - 55 else c - 87)"

text \<open>
  \<open>unquote_to_bytes\<close>: a percent sign followed by two hexadecimal digits is the byte they
  spell; everything else stands for itself.
\<close>

fun unquote_to_bytes :: "pystr \<Rightarrow> nat list" where
  "unquote_to_bytes [] = []"
| "unquote_to_bytes (c # cs) =
     (if c = 37 then
        (case cs of
           h # l # rest \<Rightarrow>
             if is_hex h \<and> is_hex l then (16 * hex_val h + hex_val l) # unquote_to_bytes rest
             else c # unquote_to_bytes cs
         | _ \<Rightarrow> c # unquote_to_bytes cs)
      else c # unquote_to_bytes cs)"

definition is_cont :: "nat \<Rightarrow> bool" where
  "is_cont b \<longleftrightarrow> 0x80 \<le> b \<and> b < 0xC0"

text \<open>Strict UTF-8 decoding: \<open>None\<close> on a byte sequence that is not UTF-8.\<close>

fun utf8_decode :: "nat list \<Rightarrow> pystr option" where
  "utf8_decode [] = Some []"
| "utf8_decode (b0 # bs) =
     (if b0 < 0x80 then map_option ((#) b0) (utf8_decode bs)
      else if 0xC2 \<le> b0 \<and> b0 < 0xE0 then
        (case bs of
           b1 # r \<Rightarrow>
             if is_cont b1
             then map_option ((#) ((b0 - 0xC0) * 64 + (b1 - 0x80))) (utf8_decode r)
             else None
         | _ \<Rightarrow> None)
      else if 0xE0 \<le> b0 \<and> b0 < 0xF0 then
        (case bs of
           b1 # b2 # r \<Rightarrow>
             (let c = (b0 - 0xE0) * 4096 + (b1 - 0x80) * 64 + (b2 - 0x80)
              in if is_cont b1 \<and> is_cont b2 \<and> 0x800 \<le> c \<and> \<not> (0xD800 \<le> c \<and> c < 0xE000)
                 then map_option ((#) c) (utf8_decode r)
                 else None)
         | _ \<Rightarrow> None)
      else if 0xF0 \<le> b0 \<and> b0 < 0xF5 then
        (case bs of
           b1 # b2 # b3 # r \<Rightarrow>
             (let c = (b0 - 0xF0) * 262144 + (b1 - 0x80) * 4096 + (b2 - 0x80) * 64 + (b3 - 0x80)
              in if is_cont b1 \<and> is_cont b2 \<and> is_cont b3 \<and> 0x10000 \<le> c \<and> c < 0x110000
                 then map_option ((#) c) (utf8_decode r)
                 else None)
         | _ \<Rightarrow> None)
      else None)"

definition unquote :: "pystr \<Rightarrow> pystr option" where
  "unquote s = utf8_decode (unquote_to_bytes s)"

section \<open>The location resolver: \<open>get_coordinates\<close> (lines 10 to 20)\<close>

definition taiwan_hint :: pystr where \<comment> \<open>line 14: the country hint in front of the query\<close>
  "taiwan_hint =
     [0x53F0, 0x7063, 0x20]"

text \<open>
  The geocoder is a collaborator outside the repository. One call either returns a
  location, returns \<open>None\<close>, or raises. What it raises is an instance of a subclass of
  \<open>Exception\<close> (a timeout is \<open>GeocoderTimedOut\<close>) or one of the exceptions that derive
  from \<open>BaseException\<close> only, which \<open>except Exception\<close> does not catch.
\<close>

datatype raised = GeocoderTimedOut | OtherException pystr | KeyboardInterrupt | SystemExit

fun is_Exception :: "raised \<Rightarrow> bool" where
  "is_Exception GeocoderTimedOut = True"
| "is_Exception (OtherException cls) = True"
| "is_Exception KeyboardInterrupt = False"
| "is_Exception SystemExit = False"

record location =
  latitude :: pyfloat
  longitude :: pyfloat
  address :: pystr

datatype geocode_outcome = Returned "location option" | Raised raised

definition get_coordinates ::
  "(pystr \<Rightarrow> nat \<Rightarrow> geocode_outcome) \<Rightarrow> pystr
     \<Rightarrow> raised + (pyfloat option \<times> pyfloat option \<times> pystr option)" where
  "get_coordinates geocode place_name =
     (let search_query = taiwan_hint @ place_name
      in case geocode search_query 10 of
           Returned (Some location) \<Rightarrow>
             Inr (Some (latitude location), Some (longitude location), Some (address location))
         | Returned None \<Rightarrow> Inr (None, None, None)
         | Raised e \<Rightarrow> if is_Exception e then Inr (None, None, None) else Inl e)"

section \<open>The calendar link: the date-range token (lines 236 to 239)\<close>

record time_of_day =
  hour :: nat
  minute :: nat
  second :: nat

record datetime = date +
  dt_hour :: nat
  dt_minute :: nat
  dt_second :: nat

definition combine :: "date \<Rightarrow> time_of_day \<Rightarrow> datetime" where
  "combine d t =
     \<lparr>year = year d, month = month d, day = day d,
      dt_hour = hour t, dt_minute = minute t, dt_second = second t\<rparr>"

definition is_leap :: "nat \<Rightarrow> bool" where
  "is_leap y \<longleftrightarrow> y mod 4 = 0 \<and> (y mod 100 \<noteq> 0 \<or> y mod 400 = 0)"

definition days_in_month :: "nat \<Rightarrow> nat \<Rightarrow> nat" where
  "days_in_month y m =
     (if m = 2 then (if is_leap y then 29 else 28)
      else if m = 4 \<or> m = 6 \<or> m = 9 \<or> m = 11 then 30 else 31)"

definition next_day :: "nat \<times> nat \<times> nat \<Rightarrow> nat \<times> nat \<times> nat" where
  "next_day ymd =
     (case ymd of (y, m, d) \<Rightarrow>
        if d < days_in_month y m then (y, m, d + 1)
        else if m < 12 then (y, m + 1, 1)
        else (y + 1, 1, 1))"

text \<open>
  \<open>dt + timedelta(hours=h)\<close>: the seconds of the day plus \<open>h\<close> hours, carried into the
  date day by day; a result after year 9999 raises \<open>OverflowError\<close>.
\<close>

definition add_hours :: "datetime \<Rightarrow> nat \<Rightarrow> py_error + datetime" where
  "add_hours dt h =
     (let total = dt_hour dt * 3600 + dt_minute dt * 60 + dt_second dt + h * 3600;
          secs = total mod 86400
      in case (next_day ^^ (total div 86400)) (year dt, month dt, day dt) of
           (y, m, d) \<Rightarrow>
             if 9999 < y then Inl OverflowError
             else Inr \<lparr>year = y, month = m, day = d,
                       dt_hour = secs div 3600, dt_minute = secs mod 3600 div 60,
                       dt_second = secs mod 60\<rparr>)"

definition pad :: "nat \<Rightarrow> nat \<Rightarrow> pystr" where
  "pad w n = replicate (w - length (digits n)) 48 @ digits n"

text \<open>
  \<open>strftime\<close> with the format of line 238, \<open>%Y%m%dT%H%M%S\<close>. Python hands \<open>%Y\<close> to the C
  library, and glibc prints the year in decimal without padding: a year below 1000 has
  fewer than four digits (year 999 gives \<open>9991231T235959\<close>). The other fields are padded
  to two digits.
\<close>

definition strftime :: "datetime \<Rightarrow> pystr" where
  "strftime dt =
     digits (year dt) @ pad 2 (month dt) @ pad 2 (day dt) @ ascii ''T''
     @ pad 2 (dt_hour dt) @ pad 2 (dt_minute dt) @ pad 2 (dt_second dt)"

definition dates_str :: "date \<Rightarrow> time_of_day \<Rightarrow> py_error + pystr" where
  "dates_str hiking_date hiking_time =
     (let start_dt = combine hiking_date hiking_time
      in case add_hours start_dt 6 of
           Inl e \<Rightarrow> Inl e
         | Inr end_dt \<Rightarrow> Inr (strftime start_dt @ ascii ''/'' @ strftime end_dt))"







section \<open>Properties of the composer\<close>

subsection \<open>The snapshot is only read\<close>

lemma snd_dict_get: "snd (dict_get d k v) = d"
  by (simp add: dict_get_def)

lemma forecast_branch_keeps: "snd (forecast_branch fr ds w) = w"
  by (simp add: forecast_branch_def dict_get_def Let_def split: sum.splits)

lemma truthy_Some_the: "truthy w \<Longrightarrow> Some (the w) = w"
  by (cases w) simp_all

lemma weather_section_keeps: "snd (weather_section fr ds d w) = w"
  using forecast_branch_keeps [of fr ds "the w"]
  by (auto simp: weather_section_def truthy_Some_the split: prod.splits)

text \<open>
  The function as one equation: the lines before the weather branch, the weather branch,
  the lines after it.
\<close>

lemma generate_details_eq:
  "generate_details fr m r d w n =
     (case quote m of
        Inl e \<Rightarrow> (Inl e, w)
      | Inr q \<Rightarrow>
          (case fst (weather_section fr (header_lines n m q r) d w) of
             Inl e \<Rightarrow> (Inl e, w)
           | Inr ls \<Rightarrow> (Inr (ls @ footer_lines q), w)))"
proof (cases "quote m")
  case (Inl e)
  then show ?thesis by (simp add: generate_details_def Let_def)
next
  case (Inr q)
  obtain a b where ab: "weather_section fr (header_lines n m q r) d w = (a, b)"
    by (cases "weather_section fr (header_lines n m q r) d w")
  with weather_section_keeps [of fr "header_lines n m q r" d w] have b: "b = w" by simp
  have "generate_details fr m r d w n =
      (case weather_section fr (header_lines n m q r) d w of
         (Inl e, w') \<Rightarrow> (Inl e, w')
       | (Inr ls, w') \<Rightarrow> (Inr (ls @ footer_lines q), w'))"
    by (simp add: generate_details_def Let_def Inr header_lines_def footer_lines_def
        split: prod.splits sum.splits)
  then show ?thesis using Inr ab b by (cases a) simp_all
qed

lemma generate_details_keeps: "snd (generate_details fr m r d w n) = w"
  by (simp add: generate_details_eq split: sum.splits)

lemma generate_full_details_keeps: "snd (generate_full_details fr m r d w n) = w"
  using generate_details_keeps [of fr m r d w n]
  by (auto simp: generate_full_details_def split: sum.splits prod.splits)

text \<open>
  Claim C6. The composer is a pure, deterministic function of its arguments: a call leaves
  the snapshot it was given as it was, and a second call with the same destination, route,
  date, snapshot (as the first call left it) and notes returns the same result as the
  first.
\<close>

theorem composer_pure:
  "(case generate_full_details fr m r d w n of
      (out1, w1) \<Rightarrow>
        (case generate_full_details fr m r d w1 n of
           (out2, w2) \<Rightarrow> w1 = w \<and> w2 = w \<and> out1 = out2))"
  using generate_full_details_keeps [of fr m r d w n]
  by (auto split: prod.splits)

text \<open>
  Claim C10. A snapshot that is present but empty gives the same output as no snapshot:
  it is routed to the seasonal branch.
\<close>

theorem empty_snapshot_is_no_snapshot:
  "fst (generate_full_details fr m r d (Some []) n) = fst (generate_full_details fr m r d None n)
   \<and> fst (weather_section fr ds d (Some [])) = Inr (seasonal_branch ds d)"
  by (simp add: generate_full_details_def generate_details_def weather_section_def Let_def
      split: sum.splits prod.splits)

text \<open>
  Claim C1 says that the composer never raises, also when optional fields of the snapshot
  are absent. It does raise: with the minimum temperature absent, \<open>min_t\<close> is the
  placeholder string, and line 83 compares that string with 10.
\<close>

theorem missing_min_temp_raises:
  "fst (generate_full_details fr (ascii ''Yushan'') [] \<lparr>year = 2024, month = 1, day = 15\<rparr>
         (Some [(ascii ''max_temp'', PyInt 5), (ascii ''rain_prob'', PyInt 60),
                (ascii ''sunrise'', PyStr (ascii ''2024-01-15T06:30'')),
                (ascii ''sunset'', PyStr (ascii ''2024-01-15T17:10''))]) [])
   = Inl TypeError"
  by (simp add: generate_full_details_def generate_details_def quote_def utf8_encode_char_def
      quote_from_bytes_def quote_byte_def always_safe_def weather_section_def
      forecast_branch_def dict_get_def ascii_def Let_def)

subsection \<open>The lines of the two weather branches\<close>

lemma forecast_branch_fst:
  "fst (forecast_branch fr ds w) =
     (case py_last5 (fst (dict_get w (ascii ''sunrise'') (PyStr unknown_time))) of
        Inl e \<Rightarrow> Inl e
      | Inr sunrise \<Rightarrow>
     (case py_last5 (fst (dict_get w (ascii ''sunset'') (PyStr unknown_time))) of
        Inl e \<Rightarrow> Inl e
      | Inr sunset \<Rightarrow>
     (case py_ge (fst (dict_get w (ascii ''rain_prob'') (PyInt 0))) 30 of
        Inl e \<Rightarrow> Inl e
      | Inr rainy \<Rightarrow>
     (case py_lt (fst (dict_get w (ascii ''min_temp'') (PyStr (ascii ''?'')))) 10 of
        Inl e \<Rightarrow> Inl e
      | Inr cold \<Rightarrow>
          Inr (ds @ [forecast_heading,
                     temp_label @ py_str fr (fst (dict_get w (ascii ''min_temp'') (PyStr (ascii ''?''))))
                       @ [0xB0] @ ascii ''C ~ ''
                       @ py_str fr (fst (dict_get w (ascii ''max_temp'') (PyStr (ascii ''?''))))
                       @ [0xB0] @ ascii ''C'',
                     rain_label @ py_str fr (fst (dict_get w (ascii ''rain_prob'') (PyInt 0)))
                       @ ascii ''%'',
                     sun_label @ sunrise @ ascii '' / '' @ sunset]
                  @ (if rainy then [rain_warning] else [])
                  @ (if cold then [cold_warning] else []))))))"
  by (simp add: forecast_branch_def dict_get_def Let_def split: sum.splits)

lemma seasonal_branch_eq:
  "seasonal_branch ds d =
     ds @ [season_heading, generic_notice]
     @ (if month d \<in> {12, 1, 2, 3} then [icy_warning]
        else if month d \<in> {5, 6} then [plum_rain_warning]
        else if month d \<in> {7, 8, 9} then [typhoon_warning]
        else [])"
  by (simp add: seasonal_branch_def Let_def)


lemma weather_section_seasonal:
  "\<not> truthy w \<Longrightarrow> fst (weather_section fr ds d w) = Inr (seasonal_branch ds d)"
  by (simp add: weather_section_def)

lemma weather_section_forecast:
  "truthy w \<Longrightarrow> fst (weather_section fr ds d w) = fst (forecast_branch fr ds (the w))"
  by (simp add: weather_section_def split: prod.splits)

lemma generate_details_seasonal:
  assumes "quote m = Inr q" and "\<not> truthy w"
  shows "fst (generate_details fr m r d w n) =
           Inr (header_lines n m q r @ [season_heading, generic_notice]
                @ (if month d \<in> {12, 1, 2, 3} then [icy_warning]
                   else if month d \<in> {5, 6} then [plum_rain_warning]
                   else if month d \<in> {7, 8, 9} then [typhoon_warning]
                   else [])
                @ footer_lines q)"
  using assms
  by (simp add: generate_details_eq weather_section_seasonal seasonal_branch_eq)

text \<open>
  Claim C4. With no forecast snapshot, for every month 1 to 12 the composer emits the
  seasonal heading, the generic confirm-closer-to-departure notice and exactly the advisory
  of the month: the icy warning in months 12, 1, 2, 3, the plum-rain warning in months 5
  and 6, the typhoon warning in months 7, 8, 9, and no advisory in months 4, 10, 11. The
  whole list of lines is given: what comes before and after the weather section does not
  depend on the month.
\<close>

theorem seasonal_advisory_by_month:
  assumes "quote m = Inr q"
  shows "(month d \<in> {12, 1, 2, 3} \<longrightarrow>
            fst (generate_details fr m r d None n) =
              Inr (header_lines n m q r @ [season_heading, generic_notice, icy_warning]
                   @ footer_lines q))
       \<and> (month d \<in> {5, 6} \<longrightarrow>
            fst (generate_details fr m r d None n) =
              Inr (header_lines n m q r @ [season_heading, generic_notice, plum_rain_warning]
                   @ footer_lines q))
       \<and> (month d \<in> {7, 8, 9} \<longrightarrow>
            fst (generate_details fr m r d None n) =
              Inr (header_lines n m q r @ [season_heading, generic_notice, typhoon_warning]
                   @ footer_lines q))
       \<and> (month d \<in> {4, 10, 11} \<longrightarrow>
            fst (generate_details fr m r d None n) =
              Inr (header_lines n m q r @ [season_heading, generic_notice]
                   @ footer_lines q))"
  using generate_details_seasonal [OF assms, of None fr r d n] by auto

lemma quote_Yushan: "quote (ascii ''Yushan'') = Inr (ascii ''Yushan'')"
  by (simp add: quote_def ascii_def utf8_encode_char_def quote_from_bytes_def quote_byte_def
      always_safe_def)

theorem seasonal_advisory_by_month_witness:
  "quote (ascii ''Yushan'') = Inr (ascii ''Yushan'')
   \<and> fst (generate_details (\<lambda>f. []) (ascii ''Yushan'') [] \<lparr>year = 2024, month = 1, day = 15\<rparr> None [])
       = Inr (header_lines [] (ascii ''Yushan'') (ascii ''Yushan'') []
              @ [season_heading, generic_notice, icy_warning] @ footer_lines (ascii ''Yushan''))
   \<and> fst (generate_details (\<lambda>f. []) (ascii ''Yushan'') [] \<lparr>year = 2024, month = 4, day = 15\<rparr> None [])
       = Inr (header_lines [] (ascii ''Yushan'') (ascii ''Yushan'') []
              @ [season_heading, generic_notice] @ footer_lines (ascii ''Yushan''))
   \<and> fst (generate_details (\<lambda>f. []) (ascii ''Yushan'') [] \<lparr>year = 2024, month = 6, day = 15\<rparr> None [])
       = Inr (header_lines [] (ascii ''Yushan'') (ascii ''Yushan'') []
              @ [season_heading, generic_notice, plum_rain_warning] @ footer_lines (ascii ''Yushan''))
   \<and> fst (generate_details (\<lambda>f. []) (ascii ''Yushan'') [] \<lparr>year = 2024, month = 8, day = 10\<rparr> None [])
       = Inr (header_lines [] (ascii ''Yushan'') (ascii ''Yushan'') []
              @ [season_heading, generic_notice, typhoon_warning] @ footer_lines (ascii ''Yushan''))"
  using quote_Yushan
    seasonal_advisory_by_month [OF quote_Yushan, of "\<lparr>year = 2024, month = 1, day = 15\<rparr>" "\<lambda>f. []" "[]" "[]"]
    seasonal_advisory_by_month [OF quote_Yushan, of "\<lparr>year = 2024, month = 4, day = 15\<rparr>" "\<lambda>f. []" "[]" "[]"]
    seasonal_advisory_by_month [OF quote_Yushan, of "\<lparr>year = 2024, month = 6, day = 15\<rparr>" "\<lambda>f. []" "[]" "[]"]
    seasonal_advisory_by_month [OF quote_Yushan, of "\<lparr>year = 2024, month = 8, day = 10\<rparr>" "\<lambda>f. []" "[]" "[]"]
  by simp






subsection \<open>When the composer returns\<close>

lemma utf8_encode_char_Inr_iff:
  "(\<exists>bs. utf8_encode_char c = Inr bs) \<longleftrightarrow> (c < 0xD800 \<or> (0xE000 \<le> c \<and> c < 0x110000))"
  by (auto simp: utf8_encode_char_def)

lemma utf8_encode_Inr_iff: "(\<exists>bs. utf8_encode s = Inr bs) \<longleftrightarrow> unicode_text s"
proof (induction s)
  case Nil
  show ?case by (simp add: unicode_text_def)
next
  case (Cons c s)
  show ?case
  proof (cases "utf8_encode_char c")
    case (Inl e)
    with utf8_encode_char_Inr_iff [of c] show ?thesis
      by (auto simp: unicode_text_def)
  next
    case (Inr bs)
    with utf8_encode_char_Inr_iff [of c] Cons show ?thesis
      by (cases "utf8_encode s") (auto simp: unicode_text_def)
  qed
qed

lemma quote_Inr_iff: "(\<exists>q. quote s = Inr q) \<longleftrightarrow> unicode_text s"
  using utf8_encode_Inr_iff [of s] by (cases "utf8_encode s") (auto simp: quote_def)




subsection \<open>The two thresholds\<close>

lemma forecast_branch_Inr:
  assumes "fst (forecast_branch fr ds w) = Inr ls"
  shows "\<exists>a b c rainy cold.
           py_ge (fst (dict_get w (ascii ''rain_prob'') (PyInt 0))) 30 = Inr rainy
         \<and> py_lt (fst (dict_get w (ascii ''min_temp'') (PyStr (ascii ''?'')))) 10 = Inr cold
         \<and> ls = ds @ [forecast_heading, temp_label @ a, rain_label @ b, sun_label @ c]
                @ (if rainy then [rain_warning] else []) @ (if cold then [cold_warning] else [])"
proof -
  let ?sunrise = "py_last5 (fst (dict_get w (ascii ''sunrise'') (PyStr unknown_time)))"
  let ?sunset = "py_last5 (fst (dict_get w (ascii ''sunset'') (PyStr unknown_time)))"
  let ?rain = "py_ge (fst (dict_get w (ascii ''rain_prob'') (PyInt 0))) 30"
  let ?cold = "py_lt (fst (dict_get w (ascii ''min_temp'') (PyStr (ascii ''?'')))) 10"
  from assms obtain sr where sr: "?sunrise = Inr sr"
    by (cases ?sunrise) (simp_all add: forecast_branch_fst)
  from assms sr obtain ss where ss: "?sunset = Inr ss"
    by (cases ?sunset) (simp_all add: forecast_branch_fst)
  from assms sr ss obtain rainy where rainy: "?rain = Inr rainy"
    by (cases ?rain) (simp_all add: forecast_branch_fst)
  from assms sr ss rainy obtain cold where cold: "?cold = Inr cold"
    by (cases ?cold) (simp_all add: forecast_branch_fst)
  from assms sr ss rainy cold have
    "ls = ds
          @ [forecast_heading,
             temp_label @ (py_str fr (fst (dict_get w (ascii ''min_temp'') (PyStr (ascii ''?''))))
                       @ [0xB0] @ ascii ''C ~ ''
                       @ py_str fr (fst (dict_get w (ascii ''max_temp'') (PyStr (ascii ''?''))))
                       @ [0xB0] @ ascii ''C''),
             rain_label @ (py_str fr (fst (dict_get w (ascii ''rain_prob'') (PyInt 0)))
                       @ ascii ''%''),
             sun_label @ (sr @ ascii '' / '' @ ss)]
          @ (if rainy then [rain_warning] else []) @ (if cold then [cold_warning] else [])"
    by (simp add: forecast_branch_fst)
  with rainy cold show ?thesis by blast
qed









section \<open>Properties of percent-encoding\<close>

subsection \<open>Bytes\<close>

lemma hex_digit_roundtrip: "x < 16 \<Longrightarrow> is_hex (hex_digit x) \<and> hex_val (hex_digit x) = x"
  by (auto simp: hex_digit_def is_hex_def hex_val_def)

lemma unquote_quote_byte:
  assumes "b < 256"
  shows "unquote_to_bytes (quote_byte b @ rest) = b # unquote_to_bytes rest"
proof (cases "always_safe b \<or> b = 47")
  case True
  then have "b \<noteq> 37" by (auto simp: always_safe_def)
  with True show ?thesis by (simp add: quote_byte_def)
next
  case False
  from assms have "b div 16 < 16" "b mod 16 < 16" by simp_all
  with hex_digit_roundtrip [of "b div 16"] hex_digit_roundtrip [of "b mod 16"] False
  show ?thesis by (simp add: quote_byte_def)
qed

lemma unquote_quote_from_bytes:
  "\<forall>b\<in>set bs. b < 256 \<Longrightarrow> unquote_to_bytes (quote_from_bytes bs) = bs"
proof (induction bs)
  case Nil
  show ?case by (simp add: quote_from_bytes_def)
next
  case (Cons b bs)
  then have "unquote_to_bytes (quote_byte b @ quote_from_bytes bs) = b # bs"
    by (simp add: unquote_quote_byte)
  then show ?case by (simp add: quote_from_bytes_def)
qed

subsection \<open>UTF-8\<close>

lemma split3: "(c::nat) div 4096 * 4096 + c div 64 mod 64 * 64 + c mod 64 = c"
proof -
  have "c div 64 = (c div 64) div 64 * 64 + (c div 64) mod 64" by simp
  moreover have "c div 64 div 64 = c div 4096" by (simp add: div_mult2_eq [symmetric])
  ultimately have "c div 64 = c div 4096 * 64 + c div 64 mod 64" by simp
  moreover have "c = c div 64 * 64 + c mod 64" by simp
  ultimately have "c = (c div 4096 * 64 + c div 64 mod 64) * 64 + c mod 64" by simp
  then show ?thesis by (simp add: algebra_simps)
qed

lemma split4:
  "(c::nat) div 262144 * 262144 + c div 4096 mod 64 * 4096 + c div 64 mod 64 * 64 + c mod 64 = c"
proof -
  have "c div 4096 = (c div 4096) div 64 * 64 + (c div 4096) mod 64" by simp
  moreover have "c div 4096 div 64 = c div 262144" by (simp add: div_mult2_eq [symmetric])
  ultimately have "c div 4096 * 4096 = c div 262144 * 262144 + c div 4096 mod 64 * 4096"
    by (simp add: algebra_simps)
  with split3 [of c] show ?thesis by simp
qed

lemma utf8_decode_1:
  "b0 < 0x80 \<Longrightarrow> utf8_decode (b0 # rest) = map_option ((#) b0) (utf8_decode rest)"
  by simp

lemma utf8_decode_2:
  "0xC2 \<le> b0 \<Longrightarrow> b0 < 0xE0 \<Longrightarrow> is_cont b1 \<Longrightarrow>
   utf8_decode (b0 # b1 # rest)
     = map_option ((#) ((b0 - 0xC0) * 64 + (b1 - 0x80))) (utf8_decode rest)"
  by simp

lemma utf8_decode_3:
  "0xE0 \<le> b0 \<Longrightarrow> b0 < 0xF0 \<Longrightarrow> is_cont b1 \<Longrightarrow> is_cont b2 \<Longrightarrow>
   c = (b0 - 0xE0) * 4096 + (b1 - 0x80) * 64 + (b2 - 0x80) \<Longrightarrow>
   0x800 \<le> c \<Longrightarrow> \<not> (0xD800 \<le> c \<and> c < 0xE000) \<Longrightarrow>
   utf8_decode (b0 # b1 # b2 # rest) = map_option ((#) c) (utf8_decode rest)"
  by (simp add: Let_def)

lemma utf8_decode_4:
  "0xF0 \<le> b0 \<Longrightarrow> b0 < 0xF5 \<Longrightarrow> is_cont b1 \<Longrightarrow> is_cont b2 \<Longrightarrow> is_cont b3 \<Longrightarrow>
   c = (b0 - 0xF0) * 262144 + (b1 - 0x80) * 4096 + (b2 - 0x80) * 64 + (b3 - 0x80) \<Longrightarrow>
   0x10000 \<le> c \<Longrightarrow> c < 0x110000 \<Longrightarrow>
   utf8_decode (b0 # b1 # b2 # b3 # rest) = map_option ((#) c) (utf8_decode rest)"
  by (simp add: Let_def)

lemma is_cont_low: "is_cont (0x80 + x mod 64)"
  by (simp add: is_cont_def)

lemma utf8_char_roundtrip:
  assumes "utf8_encode_char c = Inr bs"
  shows "(\<forall>b\<in>set bs. b < 256) \<and> utf8_decode (bs @ rest) = map_option ((#) c) (utf8_decode rest)"
proof -
  consider (one) "c < 0x80" | (two) "0x80 \<le> c" "c < 0x800"
    | (three) "0x800 \<le> c" "c < 0x10000" "\<not> (0xD800 \<le> c \<and> c < 0xE000)"
    | (four) "0x10000 \<le> c" "c < 0x110000"
    using assms by (auto simp: utf8_encode_char_def split: if_splits)
  then show ?thesis
  proof cases
    case one
    with assms have bs: "bs = [c]" by (simp add: utf8_encode_char_def)
    from one utf8_decode_1 [OF one, of rest] show ?thesis unfolding bs by simp
  next
    case two
    with assms have bs: "bs = [0xC0 + c div 64, 0x80 + c mod 64]"
      by (simp add: utf8_encode_char_def)
    from two have lo: "2 \<le> c div 64" and hi: "c div 64 < 32" by simp_all
    have b0: "0xC2 \<le> 0xC0 + c div 64" "0xC0 + c div 64 < 0xE0" using lo hi by simp_all
    have val: "(0xC0 + c div 64 - 0xC0) * 64 + (0x80 + c mod 64 - 0x80) = c" by simp
    have small: "0xC0 + c div 64 < 256" "0x80 + c mod 64 < 256" using hi by simp_all
    from utf8_decode_2 [OF b0 is_cont_low, of c rest] val small show ?thesis
      unfolding bs by simp
  next
    case three
    with assms have bs: "bs = [0xE0 + c div 4096, 0x80 + (c div 64) mod 64, 0x80 + c mod 64]"
      by (simp add: utf8_encode_char_def)
    from three have hi: "c div 4096 < 16" by simp
    have b0: "0xE0 \<le> 0xE0 + c div 4096" "0xE0 + c div 4096 < 0xF0" using hi by simp_all
    have val: "c = (0xE0 + c div 4096 - 0xE0) * 4096 + (0x80 + (c div 64) mod 64 - 0x80) * 64
                 + (0x80 + c mod 64 - 0x80)"
      using split3 [of c] by simp
    have small: "0xE0 + c div 4096 < 256" "0x80 + (c div 64) mod 64 < 256" "0x80 + c mod 64 < 256"
      using hi by simp_all
    from utf8_decode_3 [OF b0 is_cont_low is_cont_low val three(1) three(3), of rest] small
    show ?thesis unfolding bs by simp
  next
    case four
    with assms have bs: "bs = [0xF0 + c div 262144, 0x80 + (c div 4096) mod 64,
                               0x80 + (c div 64) mod 64, 0x80 + c mod 64]"
      by (simp add: utf8_encode_char_def)
    from four have hi: "c div 262144 < 5" by simp
    have b0: "0xF0 \<le> 0xF0 + c div 262144" "0xF0 + c div 262144 < 0xF5" using hi by simp_all
    have val: "c = (0xF0 + c div 262144 - 0xF0) * 262144
                 + (0x80 + (c div 4096) mod 64 - 0x80) * 4096
                 + (0x80 + (c div 64) mod 64 - 0x80) * 64 + (0x80 + c mod 64 - 0x80)"
      using split4 [of c] by simp
    have small: "0xF0 + c div 262144 < 256" "0x80 + (c div 4096) mod 64 < 256"
      "0x80 + (c div 64) mod 64 < 256" "0x80 + c mod 64 < 256"
      using hi by simp_all
    from utf8_decode_4 [OF b0 is_cont_low is_cont_low is_cont_low val four, of rest] small
    show ?thesis unfolding bs by simp
  qed
qed

subsection \<open>Strings\<close>

lemma utf8_roundtrip:
  "utf8_encode s = Inr bs \<Longrightarrow> (\<forall>b\<in>set bs. b < 256) \<and> utf8_decode bs = Some s"
proof (induction s arbitrary: bs)
  case Nil
  then show ?case by simp
next
  case (Cons c s)
  from Cons.prems obtain b1 b2 where
    c: "utf8_encode_char c = Inr b1" and s: "utf8_encode s = Inr b2" and bs: "bs = b1 @ b2"
    by (auto split: sum.splits)
  from utf8_char_roundtrip [OF c, of b2] Cons.IH [OF s] show ?case
    unfolding bs by auto
qed

lemma quote_roundtrip: "quote s = Inr q \<Longrightarrow> unquote q = Some s"
proof -
  assume "quote s = Inr q"
  then obtain bs where bs: "utf8_encode s = Inr bs" and q: "q = quote_from_bytes bs"
    by (auto simp: quote_def split: sum.splits)
  from utf8_roundtrip [OF bs] show ?thesis
    unfolding q unquote_def by (simp add: unquote_quote_from_bytes)
qed

lemma quote_byte_plain: "38 \<notin> set (quote_byte b) \<and> 61 \<notin> set (quote_byte b)"
  by (auto simp: quote_byte_def always_safe_def hex_digit_def)

lemma quote_plain: "quote s = Inr q \<Longrightarrow> 38 \<notin> set q \<and> 61 \<notin> set q"
  using quote_byte_plain
  by (auto simp: quote_def quote_from_bytes_def split: sum.splits)

lemma weather_section_extends:
  assumes "fst (weather_section fr ds d w) = Inr ls"
  shows "set ds \<subseteq> set ls"
proof (cases "truthy w")
  case True
  with assms have "fst (forecast_branch fr ds (the w)) = Inr ls"
    by (simp add: weather_section_forecast)
  from forecast_branch_Inr [OF this] show ?thesis by auto
next
  case False
  with assms show ?thesis
    by (auto simp: weather_section_seasonal seasonal_branch_eq)
qed

lemma urls_in_details:
  assumes "fst (generate_details fr m r d w n) = Inr ls" and "quote m = Inr q"
  shows "nav_label @ map_prefix @ q \<in> set ls"
    and "biji_label @ biji_prefix @ q @ biji_suffix \<in> set ls"
proof -
  from assms obtain ls' where
    ls': "fst (weather_section fr (header_lines n m q r) d w) = Inr ls'"
    and ls: "ls = ls' @ footer_lines q"
    by (auto simp: generate_details_eq split: sum.splits)
  have "nav_label @ map_prefix @ q \<in> set (header_lines n m q r)"
    by (simp add: header_lines_def)
  with weather_section_extends [OF ls'] show "nav_label @ map_prefix @ q \<in> set ls"
    unfolding ls by auto
  show "biji_label @ biji_prefix @ q @ biji_suffix \<in> set ls"
    unfolding ls by (simp add: footer_lines_def)
qed

text \<open>
  Claim C8. For every destination name that is Unicode text, multi-byte characters and
  spaces included, \<open>quote\<close> returns an encoded name, percent-decoding it gives back the
  destination name exactly, and it is this encoded name that the composer embeds after the
  fixed prefix of the map-search URL and between the fixed prefix and suffix of the
  trail-notes URL. The encoded name contains no ampersand, so it is the whole value of
  its query parameter.
\<close>

theorem destination_name_roundtrip:
  assumes "unicode_text name"
  shows "\<exists>q. quote name = Inr q \<and> unquote q = Some name \<and> 38 \<notin> set q
           \<and> (\<forall>fr r d w n ls. fst (generate_details fr name r d w n) = Inr ls \<longrightarrow>
                 nav_label @ (map_prefix @ q) \<in> set ls
               \<and> biji_label @ (biji_prefix @ q @ biji_suffix) \<in> set ls)"
proof -
  from assms quote_Inr_iff [of name] obtain q where q: "quote name = Inr q" by auto
  from quote_roundtrip [OF q] quote_plain [OF q] urls_in_details [OF _ q] q
  show ?thesis by blast
qed

theorem destination_name_roundtrip_witness:
  "unicode_text [0x5408, 0x6B61, 0x5C71, 0x20, 0x4E3B, 0x5CF0]
   \<and> quote [0x5408, 0x6B61, 0x5C71, 0x20, 0x4E3B, 0x5CF0]
       = Inr (ascii ''%E5%90%88%E6%AD%A1%E5%B1%B1%20%E4%B8%BB%E5%B3%B0'')
   \<and> unquote (ascii ''%E5%90%88%E6%AD%A1%E5%B1%B1%20%E4%B8%BB%E5%B3%B0'')
       = Some [0x5408, 0x6B61, 0x5C71, 0x20, 0x4E3B, 0x5CF0]"
proof -
  have u: "unicode_text [0x5408, 0x6B61, 0x5C71, 0x20, 0x4E3B, 0x5CF0]"
    by (simp add: unicode_text_def)
  have q: "quote [0x5408, 0x6B61, 0x5C71, 0x20, 0x4E3B, 0x5CF0]
       = Inr (ascii ''%E5%90%88%E6%AD%A1%E5%B1%B1%20%E4%B8%BB%E5%B3%B0'')"
    by (simp add: quote_def utf8_encode_char_def quote_from_bytes_def quote_byte_def
        always_safe_def hex_digit_def ascii_def)
  from destination_name_roundtrip [OF u] q u show ?thesis by auto
qed

section \<open>Properties of the location resolver\<close>

text \<open>
  Claim C9. When the geocoder finds no match, or raises an error (a timeout is one), the
  resolver returns the not-found outcome, all three components \<open>None\<close>, and raises
  nothing.
\<close>

theorem get_coordinates_not_found:
  assumes "geocode (taiwan_hint @ place_name) 10 = Returned None
           \<or> (\<exists>e. geocode (taiwan_hint @ place_name) 10 = Raised e \<and> is_Exception e)"
  shows "get_coordinates geocode place_name = Inr (None, None, None)"
  using assms by (auto simp: get_coordinates_def)

theorem get_coordinates_not_found_witness:
  "(\<exists>e. (\<lambda>q t. Raised GeocoderTimedOut) (taiwan_hint @ ascii ''Yushan'') (10::nat) = Raised e
        \<and> is_Exception e)
   \<and> get_coordinates (\<lambda>q t. Raised GeocoderTimedOut) (ascii ''Yushan'') = Inr (None, None, None)"
  using get_coordinates_not_found [of "\<lambda>q t. Raised GeocoderTimedOut" "ascii ''Yushan''"]
  by simp

section \<open>Properties of the calendar link\<close>

subsection \<open>Days of the months and of the years\<close>







subsection \<open>The next day and the six hours\<close>





subsection \<open>The timestamps\<close>







text \<open>Below year 1000 the year has fewer than four digits, as the C library prints it.\<close>

lemma dates_str_year_999:
  "dates_str \<lparr>year = 999, month = 12, day = 31\<rparr> \<lparr>hour = 23, minute = 59, second = 59\<rparr>
     = Inr (ascii ''9991231T235959/10000101T055959'')"
  by (simp add: dates_str_def combine_def add_hours_def next_day_def days_in_month_def
      strftime_def pad_def digits.simps ascii_def Let_def)




end
